theory Spec2Isabelle
  imports Main
begin

section \<open>Python values seen by the dispatcher\<close>

text \<open>
  The argument mapping of \<^verbatim>\<open>call_tool\<close> is typed \<^verbatim>\<open>dict[str, Any] | None\<close>. The values
  that matter to the dispatcher are \<^verbatim>\<open>None\<close>, booleans, integers and strings; every other
  value (a float, a list, a nested dict) is forwarded untouched and only ever rendered by
  \<^verbatim>\<open>str()\<close>, so it is represented by that rendering.
\<close>

datatype pyval =
    PyNone
  | PyBool bool
  | PyInt int
  | PyStr string
  | PyOther string

text \<open>
  A raised exception. \<open>Exception\<close> stands for an instance of the class \<^verbatim>\<open>Exception\<close> or of
  a subclass; \<open>BaseException\<close> for an instance of a class that derives from
  \<^verbatim>\<open>BaseException\<close> but not from \<^verbatim>\<open>Exception\<close> (\<^verbatim>\<open>KeyboardInterrupt\<close>, \<^verbatim>\<open>SystemExit\<close>,
  \<^verbatim>\<open>GeneratorExit\<close>, \<^verbatim>\<open>asyncio.CancelledError\<close>). Both carry \<^verbatim>\<open>str(e)\<close>.
\<close>

datatype exn = Exception string | BaseException string

fun str_exn :: "exn \<Rightarrow> string" where
  "str_exn (Exception msg) = msg"
| "str_exn (BaseException msg) = msg"

text \<open>\<^verbatim>\<open>isinstance(e, Exception)\<close>: the test the clause \<^verbatim>\<open>except Exception as e\<close> makes.\<close>

definition isinstance_Exception :: "exn \<Rightarrow> bool" where
  "isinstance_Exception e = (case e of Exception _ \<Rightarrow> True | BaseException _ \<Rightarrow> False)"

text \<open>Decimal rendering of integers, as \<^verbatim>\<open>str\<close> and f-strings produce it.\<close>

fun str_nat :: "nat \<Rightarrow> string" where
  "str_nat n =
     (if n < 10 then [''0123456789'' ! n]
      else str_nat (n div 10) @ [''0123456789'' ! (n mod 10)])"

declare str_nat.simps [simp del]

definition str_int :: "int \<Rightarrow> string" where
  "str_int i = (if i < 0 then ''-'' @ str_nat (nat (- i)) else str_nat (nat i))"

text \<open>What an f-string replacement field \<^verbatim>\<open>{v}\<close> renders for a value.\<close>

fun py_str :: "pyval \<Rightarrow> string" where
  "py_str PyNone = ''None''"
| "py_str (PyBool b) = (if b then ''True'' else ''False'')"
| "py_str (PyInt i) = str_int i"
| "py_str (PyStr s) = s"
| "py_str (PyOther s) = s"

section \<open>Protocol types\<close>

text \<open>
  \<^verbatim>\<open>TextContent\<close>, \<^verbatim>\<open>CallToolResult\<close>, \<^verbatim>\<open>Tool\<close> and \<^verbatim>\<open>ListToolsResult\<close> of \<^verbatim>\<open>mcp.types\<close>, with
  the fields the server sets. \<^verbatim>\<open>CallToolResult.isError\<close> is declared with the default
  \<^verbatim>\<open>False\<close>; the server never passes it, so every result it builds carries that default.
\<close>

record TextContent =
  type :: string
  "text" :: string

record CallToolResult =
  content :: "TextContent list"
  isError :: bool

text \<open>One entry of a schema's \<^verbatim>\<open>properties\<close> dict; an absent key is \<open>None\<close>.\<close>

record Property =
  prop_type :: string
  prop_description :: string
  prop_default :: "pyval option"
  prop_minimum :: "int option"
  prop_maximum :: "int option"
  prop_enum :: "string list option"

record InputSchema =
  schema_type :: string
  properties :: "(string \<times> Property) list"
  required :: "string list"

record Tool =
  name :: string
  description :: string
  inputSchema :: InputSchema

record ListToolsResult =
  tools :: "Tool list"

section \<open>The tool catalog\<close>

definition string_property :: "string \<Rightarrow> Property" where
  "string_property d =
     \<lparr>prop_type = ''string'', prop_description = d, prop_default = None,
      prop_minimum = None, prop_maximum = None, prop_enum = None\<rparr>"

definition limit_property :: Property where
  "limit_property =
     \<lparr>prop_type = ''integer'',
      prop_description = ''Number of posts to return (default: 10, max: 100)'',
      prop_default = Some (PyInt 10),
      prop_minimum = Some 1, prop_maximum = Some 100, prop_enum = None\<rparr>"

definition list_tools :: ListToolsResult where
  "list_tools = \<lparr>tools = [
     \<lparr>name = ''search_reddit_posts'',
      description = ''Search for posts in a specific subreddit'',
      inputSchema = \<lparr>schema_type = ''object'',
        properties = [
          (''subreddit'',
             string_property ''The name of the subreddit to search in (without r/)''),
          (''query'', string_property ''The search query''),
          (''limit'', limit_property),
          (''sort'',
             \<lparr>prop_type = ''string'',
              prop_description = ''Sort method for search results'',
              prop_default = Some (PyStr ''relevance''),
              prop_minimum = None, prop_maximum = None,
              prop_enum = Some [''relevance'', ''hot'', ''top'', ''new'', ''comments'']\<rparr>),
          (''time_filter'',
             \<lparr>prop_type = ''string'',
              prop_description = ''Time filter for search results'',
              prop_default = Some (PyStr ''all''),
              prop_minimum = None, prop_maximum = None,
              prop_enum = Some [''all'', ''day'', ''week'', ''month'', ''year'']\<rparr>)],
        required = [''subreddit'', ''query'']\<rparr>\<rparr>,
     \<lparr>name = ''get_reddit_post_details'',
      description = ''Get detailed information about a specific Reddit post'',
      inputSchema = \<lparr>schema_type = ''object'',
        properties = [(''post_id'', string_property ''The Reddit post ID'')],
        required = [''post_id'']\<rparr>\<rparr>,
     \<lparr>name = ''get_subreddit_info'',
      description = ''Get information about a subreddit'',
      inputSchema = \<lparr>schema_type = ''object'',
        properties = [
          (''subreddit'', string_property ''The name of the subreddit (without r/)'')],
        required = [''subreddit'']\<rparr>\<rparr>,
     \<lparr>name = ''get_hot_reddit_posts'',
      description = ''Get hot posts from a subreddit'',
      inputSchema = \<lparr>schema_type = ''object'',
        properties = [
          (''subreddit'', string_property ''The name of the subreddit (without r/)''),
          (''limit'', limit_property)],
        required = [''subreddit'']\<rparr>\<rparr>]\<rparr>"

section \<open>The collaborator and the serialiser\<close>

text \<open>
  \<^verbatim>\<open>RedditClient\<close> is imported by the server and used through four methods. Each either
  returns (a sequence of records, or one record, of type \<open>'r\<close>) or raises. The client is a
  parameter of the model: the theorems hold for every client.
\<close>

record 'r RedditClient =
  search_posts :: "pyval \<Rightarrow> pyval \<Rightarrow> pyval \<Rightarrow> pyval \<Rightarrow> pyval \<Rightarrow> exn + 'r list"
  get_post_details :: "pyval \<Rightarrow> exn + 'r"
  get_subreddit_info :: "pyval \<Rightarrow> exn + 'r"
  get_hot_posts :: "pyval \<Rightarrow> pyval \<Rightarrow> exn + 'r list"

text \<open>
  \<^verbatim>\<open>json.dumps(x, indent=2, default=str)\<close> of the standard library, on a sequence of
  records and on one record. It is a parameter too; it may raise (a circular structure, a
  key of an unsupported type), and the call stands inside the \<^verbatim>\<open>try\<close> block.
\<close>

record 'r json =
  dumps_seq :: "'r list \<Rightarrow> exn + string"
  dumps :: "'r \<Rightarrow> exn + string"

text \<open>A method call made on the collaborator, with the arguments it received.\<close>

datatype invocation =
    SearchPosts pyval pyval pyval pyval pyval
  | GetPostDetails pyval
  | GetSubredditInfo pyval
  | GetHotPosts pyval pyval

section \<open>The dispatcher\<close>

text \<open>
  \<^verbatim>\<open>d.get(key, default)\<close> on a dict. A key that is present with the value \<^verbatim>\<open>None\<close>
  yields \<^verbatim>\<open>None\<close>, not the default.
\<close>

definition dict_get :: "(string \<rightharpoonup> pyval) \<Rightarrow> string \<Rightarrow> pyval \<Rightarrow> pyval" where
  "dict_get d key dflt = (case d key of None \<Rightarrow> dflt | Some v \<Rightarrow> v)"

text \<open>
  \<^verbatim>\<open>arguments.get(key, default)\<close> where \<^verbatim>\<open>arguments\<close> is \<^verbatim>\<open>dict[str, Any] | None\<close>: on
  \<^verbatim>\<open>None\<close> the attribute lookup raises \<^verbatim>\<open>AttributeError\<close>.
\<close>

definition arguments_get ::
  "(string \<rightharpoonup> pyval) option \<Rightarrow> string \<Rightarrow> pyval \<Rightarrow> exn + pyval" where
  "arguments_get arguments key dflt =
     (case arguments of
        None \<Rightarrow> Inl (Exception ('''NoneType' object has no attribute 'get'' @ [CHR 0x27]))
      | Some d \<Rightarrow> Inr (dict_get d key dflt))"

text \<open>\<^verbatim>\<open>CallToolResult(content=[TextContent(type="text", text=t)])\<close>\<close>

definition text_result :: "string \<Rightarrow> CallToolResult" where
  "text_result t = \<lparr>content = [\<lparr>type = ''text'', text = t\<rparr>], isError = False\<rparr>"

text \<open>
  The body of the \<^verbatim>\<open>try\<close> statement: what it returns or raises, and the calls it made on
  the collaborator on the way.
\<close>

definition try_block ::
  "'r json \<Rightarrow> 'r RedditClient \<Rightarrow> string \<Rightarrow> (string \<rightharpoonup> pyval) option
     \<Rightarrow> (exn + CallToolResult) \<times> invocation list" where
  "try_block js reddit_client nm arguments =
    (if nm = ''search_reddit_posts'' then
       (case arguments_get arguments ''subreddit'' PyNone of Inl e \<Rightarrow> (Inl e, [])
        | Inr subreddit \<Rightarrow>
        (case arguments_get arguments ''query'' PyNone of Inl e \<Rightarrow> (Inl e, [])
        | Inr query \<Rightarrow>
        (case arguments_get arguments ''limit'' (PyInt 10) of Inl e \<Rightarrow> (Inl e, [])
        | Inr limit \<Rightarrow>
        (case arguments_get arguments ''sort'' (PyStr ''relevance'') of Inl e \<Rightarrow> (Inl e, [])
        | Inr sort' \<Rightarrow>
        (case arguments_get arguments ''time_filter'' (PyStr ''all'') of Inl e \<Rightarrow> (Inl e, [])
        | Inr time_filter \<Rightarrow>
        (case search_posts reddit_client subreddit query limit sort' time_filter of
           Inl e \<Rightarrow> (Inl e, [SearchPosts subreddit query limit sort' time_filter])
         | Inr posts \<Rightarrow>
        (case dumps_seq js posts of
           Inl e \<Rightarrow> (Inl e, [SearchPosts subreddit query limit sort' time_filter])
         | Inr s \<Rightarrow>
             (Inr (text_result
                (''Found '' @ str_nat (length posts) @ '' posts in r/'' @ py_str subreddit
                 @ '' for query: '' @ [CHR 0x27] @ py_str query @ [CHR 0x27]
                 @ ''\<newline>\<newline>'' @ s)),
              [SearchPosts subreddit query limit sort' time_filter]))))))))
     else if nm = ''get_reddit_post_details'' then
       (case arguments_get arguments ''post_id'' PyNone of Inl e \<Rightarrow> (Inl e, [])
        | Inr post_id \<Rightarrow>
        (case get_post_details reddit_client post_id of
           Inl e \<Rightarrow> (Inl e, [GetPostDetails post_id])
         | Inr post_details \<Rightarrow>
        (case dumps js post_details of
           Inl e \<Rightarrow> (Inl e, [GetPostDetails post_id])
         | Inr s \<Rightarrow>
             (Inr (text_result
                (''Post details for '' @ py_str post_id @ '':\<newline>\<newline>'' @ s)),
              [GetPostDetails post_id]))))
     else if nm = ''get_subreddit_info'' then
       (case arguments_get arguments ''subreddit'' PyNone of Inl e \<Rightarrow> (Inl e, [])
        | Inr subreddit \<Rightarrow>
        (case get_subreddit_info reddit_client subreddit of
           Inl e \<Rightarrow> (Inl e, [GetSubredditInfo subreddit])
         | Inr subreddit_info \<Rightarrow>
        (case dumps js subreddit_info of
           Inl e \<Rightarrow> (Inl e, [GetSubredditInfo subreddit])
         | Inr s \<Rightarrow>
             (Inr (text_result
                (''Subreddit information for r/'' @ py_str subreddit
                 @ '':\<newline>\<newline>'' @ s)),
              [GetSubredditInfo subreddit]))))
     else if nm = ''get_hot_reddit_posts'' then
       (case arguments_get arguments ''subreddit'' PyNone of Inl e \<Rightarrow> (Inl e, [])
        | Inr subreddit \<Rightarrow>
        (case arguments_get arguments ''limit'' (PyInt 10) of Inl e \<Rightarrow> (Inl e, [])
        | Inr limit \<Rightarrow>
        (case get_hot_posts reddit_client subreddit limit of
           Inl e \<Rightarrow> (Inl e, [GetHotPosts subreddit limit])
         | Inr posts \<Rightarrow>
        (case dumps_seq js posts of
           Inl e \<Rightarrow> (Inl e, [GetHotPosts subreddit limit])
         | Inr s \<Rightarrow>
             (Inr (text_result
                (''Hot posts from r/'' @ py_str subreddit @ '':\<newline>\<newline>'' @ s)),
              [GetHotPosts subreddit limit])))))
     else (Inr (text_result (''Unknown tool: '' @ nm)), []))"

text \<open>
  How a call of \<^verbatim>\<open>call_tool\<close> ends: it returns a result, or an exception leaves it.
\<close>

datatype completion = Return CallToolResult | Raise exn

text \<open>
  What one call of \<^verbatim>\<open>call_tool\<close> does: how it ends, the lines it hands to
  \<^verbatim>\<open>logger.error\<close>, and the calls it made on the collaborator.
\<close>

record outcome =
  completion :: completion
  logged :: "string list"
  invoked :: "invocation list"

definition not_initialized :: string where
  "not_initialized =
     ''Error: Reddit client not initialized. Please check your configuration and ensure REDDIT_CLIENT_ID, REDDIT_CLIENT_SECRET, and REDDIT_USER_AGENT are set.''"

text \<open>
  \<^verbatim>\<open>call_tool(name, arguments)\<close>, with the global \<^verbatim>\<open>reddit_client\<close> it reads (and the
  serialiser) as explicit parameters. The clause \<^verbatim>\<open>except Exception as e\<close> handles what the
  \<^verbatim>\<open>try\<close> block raises when it is an instance of \<^verbatim>\<open>Exception\<close>; any other exception
  leaves \<^verbatim>\<open>call_tool\<close>.
\<close>

definition call_tool ::
  "'r json \<Rightarrow> 'r RedditClient option \<Rightarrow> string \<Rightarrow> (string \<rightharpoonup> pyval) option \<Rightarrow> outcome" where
  "call_tool js reddit_client nm arguments =
     (case reddit_client of
        None \<Rightarrow> \<lparr>completion = Return (text_result not_initialized), logged = [], invoked = []\<rparr>
      | Some client \<Rightarrow>
          (case try_block js client nm arguments of
             (Inr r, calls) \<Rightarrow> \<lparr>completion = Return r, logged = [], invoked = calls\<rparr>
           | (Inl e, calls) \<Rightarrow>
               if isinstance_Exception e then
                 \<lparr>completion = Return (text_result (''Error: '' @ str_exn e)),
                  logged = [''Error calling tool '' @ nm @ '': '' @ str_exn e],
                  invoked = calls\<rparr>
               else \<lparr>completion = Raise e, logged = [], invoked = calls\<rparr>))"

section \<open>Sample collaborators\<close>

text \<open>
  Concrete clients and a concrete serialiser, used to evaluate the dispatcher on explicit
  inputs: a client that answers every call, one whose every call raises an
  \<^verbatim>\<open>Exception\<close>, and one whose every call raises outside that class.
\<close>

definition stub_client :: "string RedditClient" where
  "stub_client =
     \<lparr>search_posts = (\<lambda>subreddit query limit sort' time_filter. Inr [''p1'', ''p2'']),
      get_post_details = (\<lambda>post_id. Inr ''post''),
      get_subreddit_info = (\<lambda>subreddit. Inr ''info''),
      get_hot_posts = (\<lambda>subreddit limit. Inr [''h1''])\<rparr>"

definition failing_client :: "string RedditClient" where
  "failing_client =
     \<lparr>search_posts = (\<lambda>subreddit query limit sort' time_filter.
                        Inl (Exception ''received 404 HTTP response'')),
      get_post_details = (\<lambda>post_id. Inl (Exception ''received 404 HTTP response'')),
      get_subreddit_info = (\<lambda>subreddit. Inl (Exception ''received 404 HTTP response'')),
      get_hot_posts = (\<lambda>subreddit limit. Inl (Exception ''received 404 HTTP response''))\<rparr>"

definition interrupted_client :: "string RedditClient" where
  "interrupted_client =
     \<lparr>search_posts = (\<lambda>subreddit query limit sort' time_filter.
                        Inl (BaseException ''interrupted'')),
      get_post_details = (\<lambda>post_id. Inl (BaseException ''interrupted'')),
      get_subreddit_info = (\<lambda>subreddit. Inl (BaseException ''interrupted'')),
      get_hot_posts = (\<lambda>subreddit limit. Inl (BaseException ''interrupted''))\<rparr>"

text \<open>A client that answers with the arguments it was given, rendered as text.\<close>

definition echo_client :: "string RedditClient" where
  "echo_client =
     \<lparr>search_posts = (\<lambda>subreddit query limit sort' time_filter.
                        Inr [py_str subreddit, py_str query, py_str limit, py_str sort',
                             py_str time_filter]),
      get_post_details = (\<lambda>post_id. Inr (py_str post_id)),
      get_subreddit_info = (\<lambda>subreddit. Inr (py_str subreddit)),
      get_hot_posts = (\<lambda>subreddit limit. Inr [py_str subreddit, py_str limit])\<rparr>"

text \<open>A serialiser for these clients: the items of a sequence, each after a space.\<close>

definition listing_json :: "string json" where
  "listing_json =
     \<lparr>dumps_seq = (\<lambda>xs. Inr (concat (map (\<lambda>x. '' '' @ x) xs))), dumps = (\<lambda>x. Inr x)\<rparr>"

definition stub_json :: "string json" where
  "stub_json = \<lparr>dumps_seq = (\<lambda>xs. Inr (concat xs)), dumps = (\<lambda>x. Inr x)\<rparr>"

section \<open>The branches of the dispatcher\<close>

lemma try_block_absent:
  "nm \<in> {''search_reddit_posts'', ''get_reddit_post_details'', ''get_subreddit_info'',
          ''get_hot_reddit_posts''} \<Longrightarrow>
   try_block js c nm None =
     (Inl (Exception ('''NoneType' object has no attribute 'get'' @ [CHR 0x27])), [])"
  by (auto simp add: try_block_def arguments_get_def)

lemma try_block_search:
  "try_block js c ''search_reddit_posts'' (Some d) =
     (let subreddit = dict_get d ''subreddit'' PyNone;
          query = dict_get d ''query'' PyNone;
          call = SearchPosts subreddit query (dict_get d ''limit'' (PyInt 10))
                   (dict_get d ''sort'' (PyStr ''relevance''))
                   (dict_get d ''time_filter'' (PyStr ''all''))
      in case search_posts c subreddit query (dict_get d ''limit'' (PyInt 10))
                (dict_get d ''sort'' (PyStr ''relevance''))
                (dict_get d ''time_filter'' (PyStr ''all'')) of
           Inl e \<Rightarrow> (Inl e, [call])
         | Inr posts \<Rightarrow>
             (case dumps_seq js posts of
                Inl e \<Rightarrow> (Inl e, [call])
              | Inr s \<Rightarrow>
                  (Inr (text_result
                     (''Found '' @ str_nat (length posts) @ '' posts in r/'' @ py_str subreddit
                      @ '' for query: '' @ [CHR 0x27] @ py_str query @ [CHR 0x27]
                      @ ''\<newline>\<newline>'' @ s)),
                   [call])))"
  by (simp add: try_block_def arguments_get_def Let_def)

lemma try_block_details:
  "try_block js c ''get_reddit_post_details'' (Some d) =
     (let post_id = dict_get d ''post_id'' PyNone
      in case get_post_details c post_id of
           Inl e \<Rightarrow> (Inl e, [GetPostDetails post_id])
         | Inr post_details \<Rightarrow>
             (case dumps js post_details of
                Inl e \<Rightarrow> (Inl e, [GetPostDetails post_id])
              | Inr s \<Rightarrow>
                  (Inr (text_result
                     (''Post details for '' @ py_str post_id @ '':\<newline>\<newline>'' @ s)),
                   [GetPostDetails post_id])))"
  by (simp add: try_block_def arguments_get_def Let_def)

lemma try_block_info:
  "try_block js c ''get_subreddit_info'' (Some d) =
     (let subreddit = dict_get d ''subreddit'' PyNone
      in case get_subreddit_info c subreddit of
           Inl e \<Rightarrow> (Inl e, [GetSubredditInfo subreddit])
         | Inr subreddit_info \<Rightarrow>
             (case dumps js subreddit_info of
                Inl e \<Rightarrow> (Inl e, [GetSubredditInfo subreddit])
              | Inr s \<Rightarrow>
                  (Inr (text_result
                     (''Subreddit information for r/'' @ py_str subreddit
                      @ '':\<newline>\<newline>'' @ s)),
                   [GetSubredditInfo subreddit])))"
  by (simp add: try_block_def arguments_get_def Let_def)

lemma try_block_hot:
  "try_block js c ''get_hot_reddit_posts'' (Some d) =
     (let subreddit = dict_get d ''subreddit'' PyNone;
          limit = dict_get d ''limit'' (PyInt 10)
      in case get_hot_posts c subreddit limit of
           Inl e \<Rightarrow> (Inl e, [GetHotPosts subreddit limit])
         | Inr posts \<Rightarrow>
             (case dumps_seq js posts of
                Inl e \<Rightarrow> (Inl e, [GetHotPosts subreddit limit])
              | Inr s \<Rightarrow>
                  (Inr (text_result
                     (''Hot posts from r/'' @ py_str subreddit @ '':\<newline>\<newline>'' @ s)),
                   [GetHotPosts subreddit limit])))"
  by (simp add: try_block_def arguments_get_def Let_def)




text \<open>Lookups in a mapping that lacks a key, holds it, or differs at another key.\<close>

lemma dict_get_absent: "dict_get (d(k := None)) k dflt = dflt"
  by (simp add: dict_get_def)

lemma dict_get_present: "dict_get (d(k \<mapsto> v)) k dflt = v"
  by (simp add: dict_get_def)

lemma dict_get_other: "k' \<noteq> k \<Longrightarrow> dict_get (d(k := x)) k' dflt = dict_get d k' dflt"
  by (simp add: dict_get_def)

text \<open>Decimal renderings used when the dispatcher is evaluated on explicit inputs.\<close>

lemma str_nat_0: "str_nat 0 = ''0''"
  by (simp add: str_nat.simps)

lemma str_nat_5: "str_nat 5 = ''5''"
  by (simp add: str_nat.simps)

lemma str_nat_10: "str_nat 10 = ''10''"
  by (simp add: str_nat.simps)

lemma str_nat_1000: "str_nat 1000 = ''1000''"
  by (simp add: str_nat.simps)

section \<open>The catalog\<close>

text \<open>
  C4. \<^verbatim>\<open>list_tools\<close> reads no state: it is a constant. It lists exactly four descriptors,
  in the order \<^verbatim>\<open>search_reddit_posts\<close>, \<^verbatim>\<open>get_reddit_post_details\<close>, \<^verbatim>\<open>get_subreddit_info\<close>,
  \<^verbatim>\<open>get_hot_reddit_posts\<close>; each name occurs once; and the \<^verbatim>\<open>required\<close> arrays are
  \<^verbatim>\<open>[subreddit, query]\<close>, \<^verbatim>\<open>[post_id]\<close>, \<^verbatim>\<open>[subreddit]\<close> and \<^verbatim>\<open>[subreddit]\<close>.
\<close>

theorem catalog_descriptors:
  "map name (tools list_tools) =
     [''search_reddit_posts'', ''get_reddit_post_details'', ''get_subreddit_info'',
      ''get_hot_reddit_posts''] \<and>
   map (\<lambda>n. length (filter (\<lambda>t. name t = n) (tools list_tools)))
     [''search_reddit_posts'', ''get_reddit_post_details'', ''get_subreddit_info'',
      ''get_hot_reddit_posts''] = [1, 1, 1, 1] \<and>
   map (\<lambda>t. required (inputSchema t)) (tools list_tools) =
     [[''subreddit'', ''query''], [''post_id''], [''subreddit''], [''subreddit'']]"
  by (simp add: list_tools_def)

section \<open>Responses that do not reach the collaborator\<close>

text \<open>
  C2. When the handle \<^verbatim>\<open>reddit_client\<close> is unset, every call, whatever the tool name and
  whatever the arguments (absent included), returns one text block holding the fixed
  not-initialized message, logs nothing, and calls no method of the collaborator.
\<close>

theorem uninitialized_client_response:
  "call_tool js None nm arguments =
     \<lparr>completion = Return \<lparr>content = [\<lparr>type = ''text'', text = not_initialized\<rparr>],
                            isError = False\<rparr>,
      logged = [], invoked = []\<rparr>"
  by (simp add: call_tool_def text_result_def)

text \<open>
  C3, as amended. When the client is initialised, a call with a name that is none of the
  four tool names returns one text block equal to \<^verbatim>\<open>Unknown tool: \<close> followed by the
  name, with the error flag unset, for every string and every argument mapping (absent
  included); nothing is logged and the collaborator is not called.
\<close>

theorem unknown_tool_response:
  "nm \<notin> {''search_reddit_posts'', ''get_reddit_post_details'', ''get_subreddit_info'',
          ''get_hot_reddit_posts''} \<Longrightarrow>
   call_tool js (Some c) nm arguments =
     \<lparr>completion = Return \<lparr>content = [\<lparr>type = ''text'', text = ''Unknown tool: '' @ nm\<rparr>],
                            isError = False\<rparr>,
      logged = [], invoked = []\<rparr>"
  by (simp add: call_tool_def try_block_def text_result_def)

theorem unknown_tool_response_witness:
  "''delete_post'' \<notin> {''search_reddit_posts'', ''get_reddit_post_details'',
          ''get_subreddit_info'', ''get_hot_reddit_posts''} \<and>
   call_tool stub_json (Some stub_client) ''delete_post'' None =
     \<lparr>completion = Return \<lparr>content = [\<lparr>type = ''text'', text = ''Unknown tool: delete_post''\<rparr>],
                            isError = False\<rparr>,
      logged = [], invoked = []\<rparr>"
  using unknown_tool_response [of "''delete_post''" stub_json stub_client None] by simp

text \<open>
  As the claim is written (for any name outside the four, always), it fails when the
  handle is unset: the guard at the top of \<^verbatim>\<open>call_tool\<close> answers first, with the
  not-initialized message.
\<close>

theorem unknown_tool_always_counterexample:
  "''delete_post'' \<notin> {''search_reddit_posts'', ''get_reddit_post_details'',
          ''get_subreddit_info'', ''get_hot_reddit_posts''} \<and>
   completion (call_tool stub_json None ''delete_post'' None) =
     Return \<lparr>content = [\<lparr>type = ''text'', text = not_initialized\<rparr>], isError = False\<rparr> \<and>
   [\<lparr>type = ''text'', text = not_initialized\<rparr>]
     \<noteq> [\<lparr>type = ''text'', text = ''Unknown tool: delete_post''\<rparr>]"
  by (simp add: call_tool_def text_result_def not_initialized_def)

section \<open>The one response shape\<close>



section \<open>Faults of the collaborator\<close>

text \<open>
  C1, as amended. For each of the four known tools and every argument mapping, if the
  collaborator method that the tool calls raises a fault \<open>e\<close> on the arguments it is
  handed and \<open>e\<close> is an instance of \<^verbatim>\<open>Exception\<close>, then \<^verbatim>\<open>call_tool\<close> returns a result
  whose content is the single text block \<^verbatim>\<open>Error: \<close> followed by the message of \<open>e\<close>,
  hands one line naming the tool and the message to \<^verbatim>\<open>logger.error\<close>, and the fault does
  not reach the caller. If \<open>e\<close> is not an instance of \<^verbatim>\<open>Exception\<close>, it is not caught:
  it leaves \<^verbatim>\<open>call_tool\<close> and nothing is logged.
\<close>

theorem collaborator_fault_reported:
  "(search_posts c (dict_get d ''subreddit'' PyNone) (dict_get d ''query'' PyNone)
        (dict_get d ''limit'' (PyInt 10)) (dict_get d ''sort'' (PyStr ''relevance''))
        (dict_get d ''time_filter'' (PyStr ''all'')) = Inl e \<longrightarrow>
      call_tool js (Some c) ''search_reddit_posts'' (Some d) =
        (if isinstance_Exception e then
           \<lparr>completion = Return \<lparr>content = [\<lparr>type = ''text'', text = ''Error: '' @ str_exn e\<rparr>],
                                  isError = False\<rparr>,
            logged = [''Error calling tool search_reddit_posts: '' @ str_exn e],
            invoked = [SearchPosts (dict_get d ''subreddit'' PyNone) (dict_get d ''query'' PyNone)
              (dict_get d ''limit'' (PyInt 10)) (dict_get d ''sort'' (PyStr ''relevance''))
              (dict_get d ''time_filter'' (PyStr ''all''))]\<rparr>
         else
           \<lparr>completion = Raise e, logged = [],
            invoked = [SearchPosts (dict_get d ''subreddit'' PyNone) (dict_get d ''query'' PyNone)
              (dict_get d ''limit'' (PyInt 10)) (dict_get d ''sort'' (PyStr ''relevance''))
              (dict_get d ''time_filter'' (PyStr ''all''))]\<rparr>)) \<and>
   (get_post_details c (dict_get d ''post_id'' PyNone) = Inl e \<longrightarrow>
      call_tool js (Some c) ''get_reddit_post_details'' (Some d) =
        (if isinstance_Exception e then
           \<lparr>completion = Return \<lparr>content = [\<lparr>type = ''text'', text = ''Error: '' @ str_exn e\<rparr>],
                                  isError = False\<rparr>,
            logged = [''Error calling tool get_reddit_post_details: '' @ str_exn e],
            invoked = [GetPostDetails (dict_get d ''post_id'' PyNone)]\<rparr>
         else
           \<lparr>completion = Raise e, logged = [],
            invoked = [GetPostDetails (dict_get d ''post_id'' PyNone)]\<rparr>)) \<and>
   (get_subreddit_info c (dict_get d ''subreddit'' PyNone) = Inl e \<longrightarrow>
      call_tool js (Some c) ''get_subreddit_info'' (Some d) =
        (if isinstance_Exception e then
           \<lparr>completion = Return \<lparr>content = [\<lparr>type = ''text'', text = ''Error: '' @ str_exn e\<rparr>],
                                  isError = False\<rparr>,
            logged = [''Error calling tool get_subreddit_info: '' @ str_exn e],
            invoked = [GetSubredditInfo (dict_get d ''subreddit'' PyNone)]\<rparr>
         else
           \<lparr>completion = Raise e, logged = [],
            invoked = [GetSubredditInfo (dict_get d ''subreddit'' PyNone)]\<rparr>)) \<and>
   (get_hot_posts c (dict_get d ''subreddit'' PyNone) (dict_get d ''limit'' (PyInt 10)) = Inl e \<longrightarrow>
      call_tool js (Some c) ''get_hot_reddit_posts'' (Some d) =
        (if isinstance_Exception e then
           \<lparr>completion = Return \<lparr>content = [\<lparr>type = ''text'', text = ''Error: '' @ str_exn e\<rparr>],
                                  isError = False\<rparr>,
            logged = [''Error calling tool get_hot_reddit_posts: '' @ str_exn e],
            invoked = [GetHotPosts (dict_get d ''subreddit'' PyNone)
                         (dict_get d ''limit'' (PyInt 10))]\<rparr>
         else
           \<lparr>completion = Raise e, logged = [],
            invoked = [GetHotPosts (dict_get d ''subreddit'' PyNone)
                         (dict_get d ''limit'' (PyInt 10))]\<rparr>))"
  apply (intro conjI impI)
  subgoal by (simp add: call_tool_def try_block_search Let_def text_result_def)
  subgoal by (simp add: call_tool_def try_block_details Let_def text_result_def)
  subgoal by (simp add: call_tool_def try_block_info Let_def text_result_def)
  subgoal by (simp add: call_tool_def try_block_hot Let_def text_result_def)
  done

theorem collaborator_fault_reported_witness:
  "get_post_details failing_client (PyStr ''abc123'') = Inl (Exception ''received 404 HTTP response'') \<and>
   isinstance_Exception (Exception ''received 404 HTTP response'') \<and>
   call_tool stub_json (Some failing_client) ''get_reddit_post_details''
       (Some (map_of [(''post_id'', PyStr ''abc123'')])) =
     \<lparr>completion = Return \<lparr>content = [\<lparr>type = ''text'',
                                         text = ''Error: received 404 HTTP response''\<rparr>],
                            isError = False\<rparr>,
      logged = [''Error calling tool get_reddit_post_details: received 404 HTTP response''],
      invoked = [GetPostDetails (PyStr ''abc123'')]\<rparr> \<and>
   completion (call_tool stub_json (Some failing_client) ''search_reddit_posts''
       (Some (map_of [(''post_id'', PyStr ''abc123'')]))) =
     Return \<lparr>content = [\<lparr>type = ''text'', text = ''Error: received 404 HTTP response''\<rparr>],
             isError = False\<rparr> \<and>
   completion (call_tool stub_json (Some failing_client) ''get_subreddit_info''
       (Some (map_of [(''post_id'', PyStr ''abc123'')]))) =
     Return \<lparr>content = [\<lparr>type = ''text'', text = ''Error: received 404 HTTP response''\<rparr>],
             isError = False\<rparr> \<and>
   completion (call_tool stub_json (Some failing_client) ''get_hot_reddit_posts''
       (Some (map_of [(''post_id'', PyStr ''abc123'')]))) =
     Return \<lparr>content = [\<lparr>type = ''text'', text = ''Error: received 404 HTTP response''\<rparr>],
             isError = False\<rparr>"
proof -
  have raises:
    "search_posts failing_client a b l s t = Inl (Exception ''received 404 HTTP response'')"
    "get_post_details failing_client a = Inl (Exception ''received 404 HTTP response'')"
    "get_subreddit_info failing_client a = Inl (Exception ''received 404 HTTP response'')"
    "get_hot_posts failing_client a l = Inl (Exception ''received 404 HTTP response'')"
    for a b l s t
    by (simp_all add: failing_client_def)
  from collaborator_fault_reported
         [of failing_client "map_of [(''post_id'', PyStr ''abc123'')]"
             "Exception ''received 404 HTTP response''" stub_json]
  show ?thesis
    by (simp add: raises dict_get_def isinstance_Exception_def)
qed

text \<open>
  As the claim is written (any fault is caught and none propagates), it fails: a fault
  outside \<^verbatim>\<open>Exception\<close> raised by \<^verbatim>\<open>get_post_details("abc123")\<close> leaves \<^verbatim>\<open>call_tool\<close>
  unlogged.
\<close>

theorem uncaught_fault_counterexample:
  "get_post_details interrupted_client (PyStr ''abc123'') = Inl (BaseException ''interrupted'') \<and>
   call_tool stub_json (Some interrupted_client) ''get_reddit_post_details''
       (Some (map_of [(''post_id'', PyStr ''abc123'')])) =
     \<lparr>completion = Raise (BaseException ''interrupted''), logged = [],
      invoked = [GetPostDetails (PyStr ''abc123'')]\<rparr>"
  by (simp add: call_tool_def try_block_details Let_def dict_get_def interrupted_client_def
        isinstance_Exception_def)

section \<open>Arguments handed to the collaborator\<close>

text \<open>
  C5. An optional parameter that the mapping lacks reaches the collaborator as its declared
  default. For every mapping without \<^verbatim>\<open>limit\<close>, \<^verbatim>\<open>get_hot_reddit_posts\<close> and
  \<^verbatim>\<open>search_reddit_posts\<close> apply the collaborator to limit 10; without \<^verbatim>\<open>sort\<close>, the search
  applies it to \<^verbatim>\<open>relevance\<close>; without \<^verbatim>\<open>time_filter\<close>, to \<^verbatim>\<open>all\<close>; the parameters that
  are present are handed on as they are. In each case what the call returns is built from
  the collaborator's answer to exactly these arguments. The values 10, \<^verbatim>\<open>relevance\<close> and
  \<^verbatim>\<open>all\<close> are the defaults the catalog declares for these parameters. A mapping that lacks
  the key \<open>k\<close> is written \<open>d(k := None)\<close>.
\<close>

theorem defaults_forwarded:
  "(get_hot_posts c (dict_get d ''subreddit'' PyNone) (PyInt 10) = Inr posts
      \<and> dumps_seq js posts = Inr s \<longrightarrow>
    call_tool js (Some c) ''get_hot_reddit_posts'' (Some (d(''limit'' := None))) =
      \<lparr>completion = Return \<lparr>content = [\<lparr>type = ''text'',
           text = ''Hot posts from r/'' @ py_str (dict_get d ''subreddit'' PyNone)
                  @ '':\<newline>\<newline>'' @ s\<rparr>], isError = False\<rparr>,
       logged = [],
       invoked = [GetHotPosts (dict_get d ''subreddit'' PyNone) (PyInt 10)]\<rparr>) \<and>
   (search_posts c (dict_get d ''subreddit'' PyNone) (dict_get d ''query'' PyNone)
        (PyInt 10) (dict_get d ''sort'' (PyStr ''relevance''))
        (dict_get d ''time_filter'' (PyStr ''all'')) = Inr posts
      \<and> dumps_seq js posts = Inr s \<longrightarrow>
    call_tool js (Some c) ''search_reddit_posts'' (Some (d(''limit'' := None))) =
      \<lparr>completion = Return \<lparr>content = [\<lparr>type = ''text'',
           text = ''Found '' @ str_nat (length posts) @ '' posts in r/''
                  @ py_str (dict_get d ''subreddit'' PyNone)
                  @ '' for query: '' @ [CHR 0x27] @ py_str (dict_get d ''query'' PyNone)
                  @ [CHR 0x27] @ ''\<newline>\<newline>'' @ s\<rparr>], isError = False\<rparr>,
       logged = [],
       invoked = [SearchPosts (dict_get d ''subreddit'' PyNone) (dict_get d ''query'' PyNone)
          (PyInt 10) (dict_get d ''sort'' (PyStr ''relevance''))
          (dict_get d ''time_filter'' (PyStr ''all''))]\<rparr>) \<and>
   (search_posts c (dict_get d ''subreddit'' PyNone) (dict_get d ''query'' PyNone)
        (dict_get d ''limit'' (PyInt 10)) (PyStr ''relevance'')
        (dict_get d ''time_filter'' (PyStr ''all'')) = Inr posts
      \<and> dumps_seq js posts = Inr s \<longrightarrow>
    call_tool js (Some c) ''search_reddit_posts'' (Some (d(''sort'' := None))) =
      \<lparr>completion = Return \<lparr>content = [\<lparr>type = ''text'',
           text = ''Found '' @ str_nat (length posts) @ '' posts in r/''
                  @ py_str (dict_get d ''subreddit'' PyNone)
                  @ '' for query: '' @ [CHR 0x27] @ py_str (dict_get d ''query'' PyNone)
                  @ [CHR 0x27] @ ''\<newline>\<newline>'' @ s\<rparr>], isError = False\<rparr>,
       logged = [],
       invoked = [SearchPosts (dict_get d ''subreddit'' PyNone) (dict_get d ''query'' PyNone)
          (dict_get d ''limit'' (PyInt 10)) (PyStr ''relevance'')
          (dict_get d ''time_filter'' (PyStr ''all''))]\<rparr>) \<and>
   (search_posts c (dict_get d ''subreddit'' PyNone) (dict_get d ''query'' PyNone)
        (dict_get d ''limit'' (PyInt 10)) (dict_get d ''sort'' (PyStr ''relevance''))
        (PyStr ''all'') = Inr posts
      \<and> dumps_seq js posts = Inr s \<longrightarrow>
    call_tool js (Some c) ''search_reddit_posts'' (Some (d(''time_filter'' := None))) =
      \<lparr>completion = Return \<lparr>content = [\<lparr>type = ''text'',
           text = ''Found '' @ str_nat (length posts) @ '' posts in r/''
                  @ py_str (dict_get d ''subreddit'' PyNone)
                  @ '' for query: '' @ [CHR 0x27] @ py_str (dict_get d ''query'' PyNone)
                  @ [CHR 0x27] @ ''\<newline>\<newline>'' @ s\<rparr>], isError = False\<rparr>,
       logged = [],
       invoked = [SearchPosts (dict_get d ''subreddit'' PyNone) (dict_get d ''query'' PyNone)
          (dict_get d ''limit'' (PyInt 10)) (dict_get d ''sort'' (PyStr ''relevance''))
          (PyStr ''all'')]\<rparr>) \<and>
   map (\<lambda>t. map (\<lambda>k. map_option prop_default (map_of (properties (inputSchema t)) k))
               [''limit'', ''sort'', ''time_filter'']) (tools list_tools) =
     [[Some (Some (PyInt 10)), Some (Some (PyStr ''relevance'')), Some (Some (PyStr ''all''))],
      [None, None, None],
      [None, None, None],
      [Some (Some (PyInt 10)), None, None]]"
  apply (intro conjI impI)
  subgoal by (simp add: call_tool_def try_block_hot Let_def text_result_def
                dict_get_absent dict_get_other)
  subgoal by (simp add: call_tool_def try_block_search Let_def text_result_def
                dict_get_absent dict_get_other)
  subgoal by (simp add: call_tool_def try_block_search Let_def text_result_def
                dict_get_absent dict_get_other)
  subgoal by (simp add: call_tool_def try_block_search Let_def text_result_def
                dict_get_absent dict_get_other)
  subgoal by (simp add: list_tools_def limit_property_def string_property_def)
  done

text \<open>
  The two calls named in the claim, on a client that answers with the arguments it was
  given: \<^verbatim>\<open>{subreddit: "python"}\<close> reaches \<^verbatim>\<open>get_hot_posts\<close> as \<^verbatim>\<open>("python", 10)\<close>, and
  \<^verbatim>\<open>{subreddit: "test", query: "foo", sort: "new", time_filter: "week"}\<close> reaches
  \<^verbatim>\<open>search_posts\<close> with limit 10, sort \<^verbatim>\<open>new\<close> and time filter \<^verbatim>\<open>week\<close>.
\<close>

theorem defaults_forwarded_witness:
  "get_hot_posts echo_client (PyStr ''python'') (PyInt 10) = Inr [''python'', ''10''] \<and>
   dumps_seq listing_json [''python'', ''10''] = Inr '' python 10'' \<and>
   call_tool listing_json (Some echo_client) ''get_hot_reddit_posts''
       (Some (map_of [(''subreddit'', PyStr ''python'')])) =
     \<lparr>completion = Return \<lparr>content = [\<lparr>type = ''text'',
          text = ''Hot posts from r/python:\<newline>\<newline> python 10''\<rparr>], isError = False\<rparr>,
      logged = [],
      invoked = [GetHotPosts (PyStr ''python'') (PyInt 10)]\<rparr> \<and>
   search_posts echo_client (PyStr ''test'') (PyStr ''foo'') (PyInt 10) (PyStr ''new'')
       (PyStr ''week'') = Inr [''test'', ''foo'', ''10'', ''new'', ''week''] \<and>
   dumps_seq listing_json [''test'', ''foo'', ''10'', ''new'', ''week'']
     = Inr '' test foo 10 new week'' \<and>
   call_tool listing_json (Some echo_client) ''search_reddit_posts''
       (Some (map_of [(''subreddit'', PyStr ''test''), (''query'', PyStr ''foo''),
                      (''sort'', PyStr ''new''), (''time_filter'', PyStr ''week'')])) =
     \<lparr>completion = Return \<lparr>content = [\<lparr>type = ''text'',
          text = ''Found 5 posts in r/test for query: '' @ [CHR 0x27] @ ''foo'' @ [CHR 0x27]
                 @ ''\<newline>\<newline> test foo 10 new week''\<rparr>], isError = False\<rparr>,
      logged = [],
      invoked = [SearchPosts (PyStr ''test'') (PyStr ''foo'') (PyInt 10) (PyStr ''new'')
                   (PyStr ''week'')]\<rparr>"
proof -
  have m1: "(map_of [(''subreddit'', PyStr ''python'')])(''limit'' := None)
              = map_of [(''subreddit'', PyStr ''python'')]"
    by (simp add: fun_upd_idem_iff)
  have m2: "(map_of [(''subreddit'', PyStr ''test''), (''query'', PyStr ''foo''),
                      (''sort'', PyStr ''new''), (''time_filter'', PyStr ''week'')])
               (''limit'' := None)
              = map_of [(''subreddit'', PyStr ''test''), (''query'', PyStr ''foo''),
                      (''sort'', PyStr ''new''), (''time_filter'', PyStr ''week'')]"
    by (simp add: fun_upd_idem_iff)
  have e1: "get_hot_posts echo_client (PyStr ''python'') (PyInt 10) = Inr [''python'', ''10'']"
    by (simp add: echo_client_def str_int_def str_nat_10)
  have e2: "search_posts echo_client (PyStr ''test'') (PyStr ''foo'') (PyInt 10) (PyStr ''new'')
       (PyStr ''week'') = Inr [''test'', ''foo'', ''10'', ''new'', ''week'']"
    by (simp add: echo_client_def str_int_def str_nat_10)
  have j1: "dumps_seq listing_json [''python'', ''10''] = Inr '' python 10''"
    by (simp add: listing_json_def)
  have j2: "dumps_seq listing_json [''test'', ''foo'', ''10'', ''new'', ''week'']
     = Inr '' test foo 10 new week''"
    by (simp add: listing_json_def)
  have n5: "str_nat (Suc (Suc (Suc (Suc (Suc 0))))) = ''5''"
    using str_nat_5 by (simp add: eval_nat_numeral)
  from defaults_forwarded
         [of echo_client "map_of [(''subreddit'', PyStr ''python'')]"
             "[''python'', ''10'']" listing_json "'' python 10''"]
  have h: "call_tool listing_json (Some echo_client) ''get_hot_reddit_posts''
       (Some (map_of [(''subreddit'', PyStr ''python'')])) =
     \<lparr>completion = Return \<lparr>content = [\<lparr>type = ''text'',
          text = ''Hot posts from r/python:\<newline>\<newline> python 10''\<rparr>], isError = False\<rparr>,
      logged = [],
      invoked = [GetHotPosts (PyStr ''python'') (PyInt 10)]\<rparr>"
    unfolding m1 by (simp add: e1 j1 dict_get_def)
  from defaults_forwarded
         [of echo_client "map_of [(''subreddit'', PyStr ''test''), (''query'', PyStr ''foo''),
                      (''sort'', PyStr ''new''), (''time_filter'', PyStr ''week'')]"
             "[''test'', ''foo'', ''10'', ''new'', ''week'']" listing_json
             "'' test foo 10 new week''"]
  have s: "call_tool listing_json (Some echo_client) ''search_reddit_posts''
       (Some (map_of [(''subreddit'', PyStr ''test''), (''query'', PyStr ''foo''),
                      (''sort'', PyStr ''new''), (''time_filter'', PyStr ''week'')])) =
     \<lparr>completion = Return \<lparr>content = [\<lparr>type = ''text'',
          text = ''Found 5 posts in r/test for query: '' @ [CHR 0x27] @ ''foo'' @ [CHR 0x27]
                 @ ''\<newline>\<newline> test foo 10 new week''\<rparr>], isError = False\<rparr>,
      logged = [],
      invoked = [SearchPosts (PyStr ''test'') (PyStr ''foo'') (PyInt 10) (PyStr ''new'')
                   (PyStr ''week'')]\<rparr>"
    unfolding m2 by (simp add: e2 j2 n5 dict_get_def)
  from e1 j1 h e2 j2 s show ?thesis by (intro conjI)
qed

text \<open>
  C10. An explicit integer \<^verbatim>\<open>limit\<close> outside the advertised range 1 to 100 is handed to the
  collaborator as it is, by \<^verbatim>\<open>search_reddit_posts\<close> and by \<^verbatim>\<open>get_hot_reddit_posts\<close>: what
  the call returns is built from the collaborator's answer to that very value. The catalog
  advertises minimum 1 and maximum 100 for the \<^verbatim>\<open>limit\<close> of these two tools, and the
  dispatcher neither rejects nor clamps.
\<close>

theorem limit_not_clamped:
  assumes "n < 1 \<or> 100 < n"
  shows
  "(search_posts c (dict_get d ''subreddit'' PyNone) (dict_get d ''query'' PyNone) (PyInt n)
        (dict_get d ''sort'' (PyStr ''relevance''))
        (dict_get d ''time_filter'' (PyStr ''all'')) = Inr posts
      \<and> dumps_seq js posts = Inr s \<longrightarrow>
    call_tool js (Some c) ''search_reddit_posts'' (Some (d(''limit'' \<mapsto> PyInt n))) =
      \<lparr>completion = Return \<lparr>content = [\<lparr>type = ''text'',
           text = ''Found '' @ str_nat (length posts) @ '' posts in r/''
                  @ py_str (dict_get d ''subreddit'' PyNone)
                  @ '' for query: '' @ [CHR 0x27] @ py_str (dict_get d ''query'' PyNone)
                  @ [CHR 0x27] @ ''\<newline>\<newline>'' @ s\<rparr>], isError = False\<rparr>,
       logged = [],
       invoked = [SearchPosts (dict_get d ''subreddit'' PyNone) (dict_get d ''query'' PyNone)
          (PyInt n) (dict_get d ''sort'' (PyStr ''relevance''))
          (dict_get d ''time_filter'' (PyStr ''all''))]\<rparr>) \<and>
   (get_hot_posts c (dict_get d ''subreddit'' PyNone) (PyInt n) = Inr posts
      \<and> dumps_seq js posts = Inr s \<longrightarrow>
    call_tool js (Some c) ''get_hot_reddit_posts'' (Some (d(''limit'' \<mapsto> PyInt n))) =
      \<lparr>completion = Return \<lparr>content = [\<lparr>type = ''text'',
           text = ''Hot posts from r/'' @ py_str (dict_get d ''subreddit'' PyNone)
                  @ '':\<newline>\<newline>'' @ s\<rparr>], isError = False\<rparr>,
       logged = [],
       invoked = [GetHotPosts (dict_get d ''subreddit'' PyNone) (PyInt n)]\<rparr>) \<and>
   map (\<lambda>t. map_option (\<lambda>p. (prop_minimum p, prop_maximum p))
               (map_of (properties (inputSchema t)) ''limit'')) (tools list_tools) =
     [Some (Some 1, Some 100), None, None, Some (Some 1, Some 100)]"
  apply (intro conjI impI)
  subgoal by (simp add: call_tool_def try_block_search Let_def text_result_def
                dict_get_present dict_get_other)
  subgoal by (simp add: call_tool_def try_block_hot Let_def text_result_def
                dict_get_present dict_get_other)
  subgoal by (simp add: list_tools_def limit_property_def)
  done

theorem limit_not_clamped_witness:
  "((0::int) < 1 \<or> 100 < (0::int)) \<and> ((1000::int) < 1 \<or> 100 < (1000::int)) \<and>
   get_hot_posts echo_client (PyStr ''python'') (PyInt 0) = Inr [''python'', ''0''] \<and>
   dumps_seq listing_json [''python'', ''0''] = Inr '' python 0'' \<and>
   call_tool listing_json (Some echo_client) ''get_hot_reddit_posts''
      (Some (map_of [(''subreddit'', PyStr ''python''), (''limit'', PyInt 0)])) =
     \<lparr>completion = Return \<lparr>content = [\<lparr>type = ''text'',
          text = ''Hot posts from r/python:\<newline>\<newline> python 0''\<rparr>], isError = False\<rparr>,
      logged = [],
      invoked = [GetHotPosts (PyStr ''python'') (PyInt 0)]\<rparr> \<and>
   get_hot_posts echo_client (PyStr ''python'') (PyInt 1000) = Inr [''python'', ''1000''] \<and>
   dumps_seq listing_json [''python'', ''1000''] = Inr '' python 1000'' \<and>
   call_tool listing_json (Some echo_client) ''get_hot_reddit_posts''
      (Some (map_of [(''subreddit'', PyStr ''python''), (''limit'', PyInt 1000)])) =
     \<lparr>completion = Return \<lparr>content = [\<lparr>type = ''text'',
          text = ''Hot posts from r/python:\<newline>\<newline> python 1000''\<rparr>], isError = False\<rparr>,
      logged = [],
      invoked = [GetHotPosts (PyStr ''python'') (PyInt 1000)]\<rparr> \<and>
   search_posts echo_client (PyStr ''python'') PyNone (PyInt 1000) (PyStr ''relevance'')
       (PyStr ''all'') = Inr [''python'', ''None'', ''1000'', ''relevance'', ''all''] \<and>
   dumps_seq listing_json [''python'', ''None'', ''1000'', ''relevance'', ''all'']
     = Inr '' python None 1000 relevance all'' \<and>
   call_tool listing_json (Some echo_client) ''search_reddit_posts''
      (Some (map_of [(''subreddit'', PyStr ''python''), (''limit'', PyInt 1000)])) =
     \<lparr>completion = Return \<lparr>content = [\<lparr>type = ''text'',
          text = ''Found 5 posts in r/python for query: '' @ [CHR 0x27] @ ''None'' @ [CHR 0x27]
                 @ ''\<newline>\<newline> python None 1000 relevance all''\<rparr>], isError = False\<rparr>,
      logged = [],
      invoked = [SearchPosts (PyStr ''python'') PyNone (PyInt 1000) (PyStr ''relevance'')
                   (PyStr ''all'')]\<rparr>"
proof -
  have lo: "(0::int) < 1 \<or> 100 < (0::int)" by simp
  have hi: "(1000::int) < 1 \<or> 100 < (1000::int)" by simp
  have m: "(map_of [(''subreddit'', PyStr ''python'')])(''limit'' \<mapsto> v)
             = map_of [(''subreddit'', PyStr ''python''), (''limit'', v)]" for v
    by (rule ext) simp
  have e: "get_hot_posts echo_client (PyStr ''python'') (PyInt 0) = Inr [''python'', ''0'']"
    "get_hot_posts echo_client (PyStr ''python'') (PyInt 1000) = Inr [''python'', ''1000'']"
    "search_posts echo_client (PyStr ''python'') PyNone (PyInt 1000) (PyStr ''relevance'')
       (PyStr ''all'') = Inr [''python'', ''None'', ''1000'', ''relevance'', ''all'']"
    by (simp_all add: echo_client_def str_int_def str_nat_0 str_nat_1000)
  have j: "dumps_seq listing_json [''python'', ''0''] = Inr '' python 0''"
    "dumps_seq listing_json [''python'', ''1000''] = Inr '' python 1000''"
    "dumps_seq listing_json [''python'', ''None'', ''1000'', ''relevance'', ''all'']
       = Inr '' python None 1000 relevance all''"
    by (simp_all add: listing_json_def)
  have n5: "str_nat (Suc (Suc (Suc (Suc (Suc 0))))) = ''5''"
    using str_nat_5 by (simp add: eval_nat_numeral)
  have g: "dict_get (map_of [(''subreddit'', PyStr ''python'')]) ''subreddit'' PyNone = PyStr ''python''"
    "dict_get (map_of [(''subreddit'', PyStr ''python'')]) ''query'' PyNone = PyNone"
    "dict_get (map_of [(''subreddit'', PyStr ''python'')]) ''sort'' (PyStr ''relevance'') = PyStr ''relevance''"
    "dict_get (map_of [(''subreddit'', PyStr ''python'')]) ''time_filter'' (PyStr ''all'') = PyStr ''all''"
    by (simp_all add: dict_get_def)
  note inst0 = limit_not_clamped
      [OF lo, of echo_client "map_of [(''subreddit'', PyStr ''python'')]" "[''python'', ''0'']"
          listing_json "'' python 0''", unfolded m g]
  note inst1 = limit_not_clamped
      [OF hi, of echo_client "map_of [(''subreddit'', PyStr ''python'')]" "[''python'', ''1000'']"
          listing_json "'' python 1000''", unfolded m g]
  note inst2 = limit_not_clamped
      [OF hi, of echo_client "map_of [(''subreddit'', PyStr ''python'')]"
          "[''python'', ''None'', ''1000'', ''relevance'', ''all'']"
          listing_json "'' python None 1000 relevance all''", unfolded m g]
  have a: "call_tool listing_json (Some echo_client) ''get_hot_reddit_posts''
      (Some (map_of [(''subreddit'', PyStr ''python''), (''limit'', PyInt 0)])) =
     \<lparr>completion = Return \<lparr>content = [\<lparr>type = ''text'',
          text = ''Hot posts from r/python:\<newline>\<newline> python 0''\<rparr>], isError = False\<rparr>,
      logged = [],
      invoked = [GetHotPosts (PyStr ''python'') (PyInt 0)]\<rparr>"
    using inst0 e(1) j(1) by simp
  have b: "call_tool listing_json (Some echo_client) ''get_hot_reddit_posts''
      (Some (map_of [(''subreddit'', PyStr ''python''), (''limit'', PyInt 1000)])) =
     \<lparr>completion = Return \<lparr>content = [\<lparr>type = ''text'',
          text = ''Hot posts from r/python:\<newline>\<newline> python 1000''\<rparr>], isError = False\<rparr>,
      logged = [],
      invoked = [GetHotPosts (PyStr ''python'') (PyInt 1000)]\<rparr>"
    using inst1 e(2) j(2) by simp
  have c: "call_tool listing_json (Some echo_client) ''search_reddit_posts''
      (Some (map_of [(''subreddit'', PyStr ''python''), (''limit'', PyInt 1000)])) =
     \<lparr>completion = Return \<lparr>content = [\<lparr>type = ''text'',
          text = ''Found 5 posts in r/python for query: '' @ [CHR 0x27] @ ''None'' @ [CHR 0x27]
                 @ ''\<newline>\<newline> python None 1000 relevance all''\<rparr>], isError = False\<rparr>,
      logged = [],
      invoked = [SearchPosts (PyStr ''python'') PyNone (PyInt 1000) (PyStr ''relevance'')
                   (PyStr ''all'')]\<rparr>"
    using inst2 e(3) j(3) by (simp add: n5)
  from lo hi e(1) j(1) a e(2) j(2) b e(3) j(3) c show ?thesis by (intro conjI)
qed

section \<open>Required parameters\<close>

text \<open>
  C8, as amended. With the client initialised and an argument mapping present, a
  parameter of a tool's \<^verbatim>\<open>required\<close> array that the mapping lacks is not checked: the
  dispatcher applies the collaborator to \<^verbatim>\<open>None\<close> in the place of that parameter, and when
  the collaborator answers, the call returns that answer under the usual header (which
  renders the missing value as \<^verbatim>\<open>None\<close>); the dispatcher rejects nothing itself. A mapping
  that lacks the key \<open>k\<close> is written \<open>d(k := None)\<close>.
\<close>

theorem required_not_enforced:
  "(search_posts c PyNone (dict_get d ''query'' PyNone) (dict_get d ''limit'' (PyInt 10))
        (dict_get d ''sort'' (PyStr ''relevance''))
        (dict_get d ''time_filter'' (PyStr ''all'')) = Inr posts
      \<and> dumps_seq js posts = Inr s \<longrightarrow>
    call_tool js (Some c) ''search_reddit_posts'' (Some (d(''subreddit'' := None))) =
      \<lparr>completion = Return \<lparr>content = [\<lparr>type = ''text'',
           text = ''Found '' @ str_nat (length posts) @ '' posts in r/None for query: ''
                  @ [CHR 0x27] @ py_str (dict_get d ''query'' PyNone)
                  @ [CHR 0x27] @ ''\<newline>\<newline>'' @ s\<rparr>], isError = False\<rparr>,
       logged = [],
       invoked = [SearchPosts PyNone (dict_get d ''query'' PyNone)
          (dict_get d ''limit'' (PyInt 10)) (dict_get d ''sort'' (PyStr ''relevance''))
          (dict_get d ''time_filter'' (PyStr ''all''))]\<rparr>) \<and>
   (search_posts c (dict_get d ''subreddit'' PyNone) PyNone (dict_get d ''limit'' (PyInt 10))
        (dict_get d ''sort'' (PyStr ''relevance''))
        (dict_get d ''time_filter'' (PyStr ''all'')) = Inr posts
      \<and> dumps_seq js posts = Inr s \<longrightarrow>
    call_tool js (Some c) ''search_reddit_posts'' (Some (d(''query'' := None))) =
      \<lparr>completion = Return \<lparr>content = [\<lparr>type = ''text'',
           text = ''Found '' @ str_nat (length posts) @ '' posts in r/''
                  @ py_str (dict_get d ''subreddit'' PyNone)
                  @ '' for query: '' @ [CHR 0x27] @ ''None''
                  @ [CHR 0x27] @ ''\<newline>\<newline>'' @ s\<rparr>], isError = False\<rparr>,
       logged = [],
       invoked = [SearchPosts (dict_get d ''subreddit'' PyNone) PyNone
          (dict_get d ''limit'' (PyInt 10)) (dict_get d ''sort'' (PyStr ''relevance''))
          (dict_get d ''time_filter'' (PyStr ''all''))]\<rparr>) \<and>
   (get_post_details c PyNone = Inr r \<and> dumps js r = Inr s \<longrightarrow>
    call_tool js (Some c) ''get_reddit_post_details'' (Some (d(''post_id'' := None))) =
      \<lparr>completion = Return \<lparr>content = [\<lparr>type = ''text'',
           text = ''Post details for None:\<newline>\<newline>'' @ s\<rparr>], isError = False\<rparr>,
       logged = [],
       invoked = [GetPostDetails PyNone]\<rparr>) \<and>
   (get_subreddit_info c PyNone = Inr r \<and> dumps js r = Inr s \<longrightarrow>
    call_tool js (Some c) ''get_subreddit_info'' (Some (d(''subreddit'' := None))) =
      \<lparr>completion = Return \<lparr>content = [\<lparr>type = ''text'',
           text = ''Subreddit information for r/None:\<newline>\<newline>'' @ s\<rparr>],
         isError = False\<rparr>,
       logged = [],
       invoked = [GetSubredditInfo PyNone]\<rparr>) \<and>
   (get_hot_posts c PyNone (dict_get d ''limit'' (PyInt 10)) = Inr posts
      \<and> dumps_seq js posts = Inr s \<longrightarrow>
    call_tool js (Some c) ''get_hot_reddit_posts'' (Some (d(''subreddit'' := None))) =
      \<lparr>completion = Return \<lparr>content = [\<lparr>type = ''text'',
           text = ''Hot posts from r/None:\<newline>\<newline>'' @ s\<rparr>], isError = False\<rparr>,
       logged = [],
       invoked = [GetHotPosts PyNone (dict_get d ''limit'' (PyInt 10))]\<rparr>)"
  apply (intro conjI impI)
  subgoal by (simp add: call_tool_def try_block_search Let_def text_result_def
                dict_get_absent dict_get_other)
  subgoal by (simp add: call_tool_def try_block_search Let_def text_result_def
                dict_get_absent dict_get_other)
  subgoal by (simp add: call_tool_def try_block_details Let_def text_result_def
                dict_get_absent dict_get_other)
  subgoal by (simp add: call_tool_def try_block_info Let_def text_result_def
                dict_get_absent dict_get_other)
  subgoal by (simp add: call_tool_def try_block_hot Let_def text_result_def
                dict_get_absent dict_get_other)
  done

theorem required_not_enforced_witness:
  "get_subreddit_info echo_client PyNone = Inr ''None'' \<and>
   dumps listing_json ''None'' = Inr ''None'' \<and>
   call_tool listing_json (Some echo_client) ''get_subreddit_info'' (Some (map_of [])) =
     \<lparr>completion = Return \<lparr>content = [\<lparr>type = ''text'',
          text = ''Subreddit information for r/None:\<newline>\<newline>None''\<rparr>], isError = False\<rparr>,
      logged = [],
      invoked = [GetSubredditInfo PyNone]\<rparr> \<and>
   get_post_details echo_client PyNone = Inr ''None'' \<and>
   call_tool listing_json (Some echo_client) ''get_reddit_post_details'' (Some (map_of [])) =
     \<lparr>completion = Return \<lparr>content = [\<lparr>type = ''text'',
          text = ''Post details for None:\<newline>\<newline>None''\<rparr>], isError = False\<rparr>,
      logged = [],
      invoked = [GetPostDetails PyNone]\<rparr> \<and>
   get_hot_posts echo_client PyNone (PyInt 10) = Inr [''None'', ''10''] \<and>
   dumps_seq listing_json [''None'', ''10''] = Inr '' None 10'' \<and>
   call_tool listing_json (Some echo_client) ''get_hot_reddit_posts'' (Some (map_of [])) =
     \<lparr>completion = Return \<lparr>content = [\<lparr>type = ''text'',
          text = ''Hot posts from r/None:\<newline>\<newline> None 10''\<rparr>], isError = False\<rparr>,
      logged = [],
      invoked = [GetHotPosts PyNone (PyInt 10)]\<rparr> \<and>
   search_posts echo_client PyNone PyNone (PyInt 10) (PyStr ''relevance'') (PyStr ''all'')
     = Inr [''None'', ''None'', ''10'', ''relevance'', ''all''] \<and>
   dumps_seq listing_json [''None'', ''None'', ''10'', ''relevance'', ''all'']
     = Inr '' None None 10 relevance all'' \<and>
   call_tool listing_json (Some echo_client) ''search_reddit_posts'' (Some (map_of [])) =
     \<lparr>completion = Return \<lparr>content = [\<lparr>type = ''text'',
          text = ''Found 5 posts in r/None for query: '' @ [CHR 0x27] @ ''None'' @ [CHR 0x27]
                 @ ''\<newline>\<newline> None None 10 relevance all''\<rparr>], isError = False\<rparr>,
      logged = [],
      invoked = [SearchPosts PyNone PyNone (PyInt 10) (PyStr ''relevance'') (PyStr ''all'')]\<rparr>"
proof -
  have m: "(map_of ([] :: (string \<times> pyval) list))(k := None) = map_of []" for k
    by simp
  have e: "get_subreddit_info echo_client PyNone = Inr ''None''"
    "get_post_details echo_client PyNone = Inr ''None''"
    "get_hot_posts echo_client PyNone (PyInt 10) = Inr [''None'', ''10'']"
    "search_posts echo_client PyNone PyNone (PyInt 10) (PyStr ''relevance'') (PyStr ''all'')
       = Inr [''None'', ''None'', ''10'', ''relevance'', ''all'']"
    by (simp_all add: echo_client_def str_int_def str_nat_10)
  have j: "dumps listing_json ''None'' = Inr ''None''"
    "dumps_seq listing_json [''None'', ''10''] = Inr '' None 10''"
    "dumps_seq listing_json [''None'', ''None'', ''10'', ''relevance'', ''all'']
       = Inr '' None None 10 relevance all''"
    by (simp_all add: listing_json_def)
  have n5: "str_nat (Suc (Suc (Suc (Suc (Suc 0))))) = ''5''"
    using str_nat_5 by (simp add: eval_nat_numeral)
  note inst1 = required_not_enforced
         [of echo_client "map_of []" "[''None'', ''None'', ''10'', ''relevance'', ''all'']"
             listing_json "'' None None 10 relevance all''" "''None''", unfolded m]
  note inst2 = required_not_enforced
         [of echo_client "map_of []" "[''None'', ''10'']"
             listing_json "'' None 10''" "''None''", unfolded m]
  note inst3 = required_not_enforced
         [of echo_client "map_of []" "[]"
             listing_json "''None''" "''None''", unfolded m]
  have a: "call_tool listing_json (Some echo_client) ''get_subreddit_info'' (Some (map_of [])) =
     \<lparr>completion = Return \<lparr>content = [\<lparr>type = ''text'',
          text = ''Subreddit information for r/None:\<newline>\<newline>None''\<rparr>], isError = False\<rparr>,
      logged = [],
      invoked = [GetSubredditInfo PyNone]\<rparr>"
    using inst3 by (simp add: e j dict_get_def)
  have b: "call_tool listing_json (Some echo_client) ''get_reddit_post_details'' (Some (map_of [])) =
     \<lparr>completion = Return \<lparr>content = [\<lparr>type = ''text'',
          text = ''Post details for None:\<newline>\<newline>None''\<rparr>], isError = False\<rparr>,
      logged = [],
      invoked = [GetPostDetails PyNone]\<rparr>"
    using inst3 by (simp add: e j dict_get_def)
  have c: "call_tool listing_json (Some echo_client) ''get_hot_reddit_posts'' (Some (map_of [])) =
     \<lparr>completion = Return \<lparr>content = [\<lparr>type = ''text'',
          text = ''Hot posts from r/None:\<newline>\<newline> None 10''\<rparr>], isError = False\<rparr>,
      logged = [],
      invoked = [GetHotPosts PyNone (PyInt 10)]\<rparr>"
    using inst2 by (simp add: e j dict_get_def)
  have d: "call_tool listing_json (Some echo_client) ''search_reddit_posts'' (Some (map_of [])) =
     \<lparr>completion = Return \<lparr>content = [\<lparr>type = ''text'',
          text = ''Found 5 posts in r/None for query: '' @ [CHR 0x27] @ ''None'' @ [CHR 0x27]
                 @ ''\<newline>\<newline> None None 10 relevance all''\<rparr>], isError = False\<rparr>,
      logged = [],
      invoked = [SearchPosts PyNone PyNone (PyInt 10) (PyStr ''relevance'') (PyStr ''all'')]\<rparr>"
    using inst1 by (simp add: e j n5 dict_get_def)
  from e(1) j(1) a e(2) b e(3) j(2) c e(4) j(3) d show ?thesis by (intro conjI)
qed

text \<open>
  As the claim is written (a missing required parameter is rejected before the
  collaborator is called), it fails: \<^verbatim>\<open>get_subreddit_info\<close> with the empty mapping calls
  \<^verbatim>\<open>get_subreddit_info(None)\<close> and returns the collaborator's answer under a header that
  renders the missing name as \<^verbatim>\<open>None\<close>.
\<close>

theorem required_enforced_counterexample:
  "name (tools list_tools ! 2) = ''get_subreddit_info'' \<and>
   required (inputSchema (tools list_tools ! 2)) = [''subreddit''] \<and>
   map_of ([] :: (string \<times> pyval) list) ''subreddit'' = None \<and>
   call_tool stub_json (Some stub_client) ''get_subreddit_info'' (Some (map_of [])) =
     \<lparr>completion = Return \<lparr>content = [\<lparr>type = ''text'',
          text = ''Subreddit information for r/None:\<newline>\<newline>info''\<rparr>], isError = False\<rparr>,
      logged = [],
      invoked = [GetSubredditInfo PyNone]\<rparr>"
  by (simp add: list_tools_def call_tool_def try_block_info Let_def text_result_def
        dict_get_def stub_client_def stub_json_def)

text \<open>
  C7, at the input where it fails. The signature of \<^verbatim>\<open>call_tool\<close> admits an absent
  mapping (\<^verbatim>\<open>arguments: dict[str, Any] | None\<close>). With the client initialised and the
  mapping absent, each known tool raises \<^verbatim>\<open>AttributeError\<close> on its first
  \<^verbatim>\<open>arguments.get\<close>; the handler turns it into an error text and a log line, and the
  collaborator is not called at all, so no null value is passed through to it.
\<close>

theorem absent_arguments_raise:
  "call_tool js (Some c) ''search_reddit_posts'' None =
     \<lparr>completion = Return \<lparr>content = [\<lparr>type = ''text'',
          text = ''Error: 'NoneType' object has no attribute 'get'' @ [CHR 0x27]\<rparr>],
        isError = False\<rparr>,
      logged = [''Error calling tool search_reddit_posts: 'NoneType' object has no attribute 'get''
                @ [CHR 0x27]],
      invoked = []\<rparr> \<and>
   call_tool js (Some c) ''get_reddit_post_details'' None =
     \<lparr>completion = Return \<lparr>content = [\<lparr>type = ''text'',
          text = ''Error: 'NoneType' object has no attribute 'get'' @ [CHR 0x27]\<rparr>],
        isError = False\<rparr>,
      logged = [''Error calling tool get_reddit_post_details: 'NoneType' object has no attribute 'get''
                @ [CHR 0x27]],
      invoked = []\<rparr> \<and>
   call_tool js (Some c) ''get_subreddit_info'' None =
     \<lparr>completion = Return \<lparr>content = [\<lparr>type = ''text'',
          text = ''Error: 'NoneType' object has no attribute 'get'' @ [CHR 0x27]\<rparr>],
        isError = False\<rparr>,
      logged = [''Error calling tool get_subreddit_info: 'NoneType' object has no attribute 'get''
                @ [CHR 0x27]],
      invoked = []\<rparr> \<and>
   call_tool js (Some c) ''get_hot_reddit_posts'' None =
     \<lparr>completion = Return \<lparr>content = [\<lparr>type = ''text'',
          text = ''Error: 'NoneType' object has no attribute 'get'' @ [CHR 0x27]\<rparr>],
        isError = False\<rparr>,
      logged = [''Error calling tool get_hot_reddit_posts: 'NoneType' object has no attribute 'get''
                @ [CHR 0x27]],
      invoked = []\<rparr>"
  by (simp add: call_tool_def try_block_absent text_result_def isinstance_Exception_def)

section \<open>A successful search\<close>

text \<open>
  C6. When the client is initialised, \<^verbatim>\<open>search_posts\<close> returns a list of posts without a
  fault and the serialiser renders that list as \<open>s\<close>, the call returns one text block:
  the header \<^verbatim>\<open>Found N posts in r/SUBREDDIT for query: 'QUERY'\<close>, where \<open>N\<close> is the number
  of posts returned and the subreddit and the query are echoed from the arguments, then an
  empty line, then \<open>s\<close>. Nothing is logged.
\<close>

theorem search_success_text:
  assumes "search_posts c (dict_get d ''subreddit'' PyNone) (dict_get d ''query'' PyNone)
             (dict_get d ''limit'' (PyInt 10)) (dict_get d ''sort'' (PyStr ''relevance''))
             (dict_get d ''time_filter'' (PyStr ''all'')) = Inr posts"
    and "dumps_seq js posts = Inr s"
  shows "call_tool js (Some c) ''search_reddit_posts'' (Some d) =
     \<lparr>completion = Return \<lparr>content = [\<lparr>type = ''text'',
          text = ''Found '' @ str_nat (length posts) @ '' posts in r/''
                 @ py_str (dict_get d ''subreddit'' PyNone)
                 @ '' for query: '' @ [CHR 0x27] @ py_str (dict_get d ''query'' PyNone)
                 @ [CHR 0x27] @ ''\<newline>\<newline>'' @ s\<rparr>], isError = False\<rparr>,
      logged = [],
      invoked = [SearchPosts (dict_get d ''subreddit'' PyNone) (dict_get d ''query'' PyNone)
             (dict_get d ''limit'' (PyInt 10)) (dict_get d ''sort'' (PyStr ''relevance''))
             (dict_get d ''time_filter'' (PyStr ''all''))]\<rparr>"
  using assms by (simp add: call_tool_def try_block_search Let_def text_result_def)

theorem search_success_text_witness:
  "search_posts stub_client (PyStr ''python'') (PyStr ''asyncio'') (PyInt 10)
      (PyStr ''relevance'') (PyStr ''all'') = Inr [''p1'', ''p2''] \<and>
   dumps_seq stub_json [''p1'', ''p2''] = Inr ''p1p2'' \<and>
   call_tool stub_json (Some stub_client) ''search_reddit_posts''
       (Some (map_of [(''subreddit'', PyStr ''python''), (''query'', PyStr ''asyncio'')])) =
     \<lparr>completion = Return \<lparr>content = [\<lparr>type = ''text'',
          text = ''Found 2 posts in r/python for query: '' @ [CHR 0x27] @ ''asyncio''
                 @ [CHR 0x27] @ ''\<newline>\<newline>p1p2''\<rparr>], isError = False\<rparr>,
      logged = [],
      invoked = [SearchPosts (PyStr ''python'') (PyStr ''asyncio'') (PyInt 10)
                   (PyStr ''relevance'') (PyStr ''all'')]\<rparr>"
proof -
  have a: "search_posts stub_client x y l so t = Inr [''p1'', ''p2'']" for x y l so t
    by (simp add: stub_client_def)
  have b: "dumps_seq stub_json [''p1'', ''p2''] = Inr ''p1p2''"
    by (simp add: stub_json_def)
  have n: "str_nat (Suc (Suc 0)) = ''2''"
    by (simp add: str_nat.simps)
  from search_success_text [OF a b,
        of "map_of [(''subreddit'', PyStr ''python''), (''query'', PyStr ''asyncio'')]"]
  show ?thesis
    by (simp add: a b n dict_get_def)
qed

end
